theory Spec2Isabelle
  imports Main "HOL-Library.Sublist" "HOL-Library.AList"
begin

section \<open>Python strings\<close>

text \<open>
  A Python \<open>str\<close> is modelled as a \<open>string\<close> whose characters are the code points
  U+0000 to U+00FF. \<open>len\<close> is \<open>length\<close>; the number of bytes of the UTF-8 encoding
  (what aiohttp sends for \<open>text=...\<close>) is \<open>utf8_len\<close>: one byte below U+0080, two
  bytes from there to U+00FF.
\<close>

definition is_ascii :: "char \<Rightarrow> bool" where
  "is_ascii c = (of_char c < (128::nat))"

definition utf8_len :: "string \<Rightarrow> nat" where
  "utf8_len s = sum_list (map (\<lambda>c. if is_ascii c then 1 else 2) s)"

text \<open>\<open>s.split(sep)\<close> for a separator of one character: never an empty list.\<close>

fun str_split :: "char \<Rightarrow> string \<Rightarrow> string list" where
  "str_split sep [] = [[]]"
| "str_split sep (c # cs) =
     (if c = sep then [] # str_split sep cs
      else (case str_split sep cs of
              [] \<Rightarrow> [[c]]
            | w # ws \<Rightarrow> (c # w) # ws))"

text \<open>\<open>sep.join(xs)\<close>.\<close>

fun str_join :: "string \<Rightarrow> string list \<Rightarrow> string" where
  "str_join sep [] = []"
| "str_join sep [x] = x"
| "str_join sep (x # y # ys) = x @ sep @ str_join sep (y # ys)"

text \<open>\<open>s.endswith(suf)\<close>.\<close>

definition str_endswith :: "string \<Rightarrow> string \<Rightarrow> bool" where
  "str_endswith s suf =
     (length suf \<le> length s \<and> drop (length s - length suf) s = suf)"

text \<open>\<open>str(n)\<close> for an integer: decimal digits, a minus sign for a negative one.\<close>

definition digit :: "nat \<Rightarrow> char" where
  "digit n = ''0123456789'' ! (n mod 10)"

function str_nat :: "nat \<Rightarrow> string" where
  "str_nat n = (if n < 10 then [digit n] else str_nat (n div 10) @ [digit n])"
  by pat_completeness auto
termination
  by (relation "measure id") auto

declare str_nat.simps [simp del]

definition str_int :: "int \<Rightarrow> string" where
  "str_int i = (if i < 0 then CHR ''-'' # str_nat (nat (- i)) else str_nat (nat i))"

section \<open>Responses, exceptions and Python values\<close>

text \<open>
  \<open>aiohttp.web.Response(headers=..., status=..., text=...)\<close>. The headers are a Python
  dict: an association list, updated in place or extended at the end.
\<close>

record response =
  headers :: "(string \<times> string) list"
  status :: nat
  "text" :: string

text \<open>
  A raised exception, with what the server reads from it: whether it is an instance of
  \<open>ValueError\<close>, \<open>str(e)\<close>, and the list of strings that
  \<open>traceback.format_exception(exc_type, exc_value, exc_traceback)\<close> returns for it.
\<close>

record exn =
  is_ValueError :: bool
  str_e :: string
  format_exception :: "string list"

text \<open>
  The values a handler can return: \<open>None\<close>, booleans, integers, strings, lists,
  dicts (in insertion order), a pre-built \<open>aiohttp.web.Response\<close>, and any other
  object, of which only its truth value matters here. Floats are left out.
\<close>

datatype pyval =
    PNone
  | PBool bool
  | PInt int
  | PStr string
  | PList "pyval list"
  | PDict "(pyval \<times> pyval) list"
  | PResponse response
  | PObject bool

text \<open>
  The truth value of \<open>output\<close> in \<open>if output and ...\<close>. For a response object the
  value plays no part: the condition of line 106 is false for it either way, and line 110
  returns it.
\<close>

fun truthy :: "pyval \<Rightarrow> bool" where
  "truthy PNone = False"
| "truthy (PBool b) = b"
| "truthy (PInt i) = (i \<noteq> 0)"
| "truthy (PStr s) = (s \<noteq> [])"
| "truthy (PList xs) = (xs \<noteq> [])"
| "truthy (PDict kvs) = (kvs \<noteq> [])"
| "truthy (PResponse r) = True"
| "truthy (PObject b) = b"

text \<open>\<open>isinstance(output, aiohttp.web.Response)\<close>.\<close>

fun is_Response :: "pyval \<Rightarrow> bool" where
  "is_Response (PResponse r) = True"
| "is_Response v = False"

section \<open>json.dumps(output, indent=2)\<close>

text \<open>
  The standard encoder with its defaults (\<open>ensure_ascii=True\<close>, \<open>skipkeys=False\<close>) and
  \<open>indent=2\<close>, so the item separator is \<open>,\<close> and the key separator is \<open>: \<close>.
  \<open>None\<close> stands for the \<open>TypeError\<close> the encoder raises on a value or a key it cannot
  serialise.
\<close>

definition hexdigit :: "nat \<Rightarrow> char" where
  "hexdigit n = ''0123456789abcdef'' ! (n mod 16)"

text \<open>
  One character of a string literal: backslash and double quote are escaped, the characters
  from space to tilde stand for themselves, the control characters with a short escape use
  it, and every other character becomes a \<open>\uXXXX\<close> escape.
\<close>

definition escape_char :: "char \<Rightarrow> string" where
  "escape_char c =
     (if c = CHR 0x5C then [CHR 0x5C, CHR 0x5C]
      else if c = CHR 0x22 then [CHR 0x5C, CHR 0x22]
      else if (32::nat) \<le> of_char c \<and> of_char c \<le> (126::nat) then [c]
      else if c = CHR 0x08 then [CHR 0x5C, CHR ''b'']
      else if c = CHR 0x0C then [CHR 0x5C, CHR ''f'']
      else if c = CHR 0x0A then [CHR 0x5C, CHR ''n'']
      else if c = CHR 0x0D then [CHR 0x5C, CHR ''r'']
      else if c = CHR 0x09 then [CHR 0x5C, CHR ''t'']
      else [CHR 0x5C, CHR ''u'', CHR ''0'', CHR ''0'',
            hexdigit (of_char c div 16), hexdigit (of_char c)])"

definition encode_basestring_ascii :: "string \<Rightarrow> string" where
  "encode_basestring_ascii s = CHR 0x22 # concat (map escape_char s) @ [CHR 0x22]"

definition newline_indent :: "nat \<Rightarrow> string" where
  "newline_indent level = CHR 0x0A # replicate (2 * level) (CHR '' '')"

text \<open>
  A dict key: a string stands for itself, \<open>True\<close>, \<open>False\<close>, \<open>None\<close> and integers are
  converted, anything else raises.
\<close>

fun encode_key :: "pyval \<Rightarrow> string option" where
  "encode_key (PStr s) = Some (encode_basestring_ascii s)"
| "encode_key (PBool b) = Some (encode_basestring_ascii (if b then ''true'' else ''false''))"
| "encode_key PNone = Some (encode_basestring_ascii ''null'')"
| "encode_key (PInt i) = Some (encode_basestring_ascii (str_int i))"
| "encode_key v = None"

fun iterencode :: "nat \<Rightarrow> pyval \<Rightarrow> string option"
  and iterencode_list :: "nat \<Rightarrow> pyval list \<Rightarrow> string option"
  and iterencode_dict :: "nat \<Rightarrow> (pyval \<times> pyval) list \<Rightarrow> string option"
where
  "iterencode level PNone = Some ''null''"
| "iterencode level (PBool b) = Some (if b then ''true'' else ''false'')"
| "iterencode level (PInt i) = Some (str_int i)"
| "iterencode level (PStr s) = Some (encode_basestring_ascii s)"
| "iterencode level (PList xs) =
     (if xs = [] then Some ''[]''
      else (case iterencode_list (Suc level) xs of
              None \<Rightarrow> None
            | Some items \<Rightarrow>
                Some (''['' @ newline_indent (Suc level) @ items @ newline_indent level @ '']'')))"
| "iterencode level (PDict kvs) =
     (if kvs = [] then Some ''{}''
      else (case iterencode_dict (Suc level) kvs of
              None \<Rightarrow> None
            | Some items \<Rightarrow>
                Some (''{'' @ newline_indent (Suc level) @ items @ newline_indent level @ ''}'')))"
| "iterencode level (PResponse r) = None"
| "iterencode level (PObject b) = None"
| "iterencode_list level [] = Some []"
| "iterencode_list level (x # xs) =
     (case iterencode level x of
        None \<Rightarrow> None
      | Some a \<Rightarrow>
          (if xs = [] then Some a
           else (case iterencode_list level xs of
                   None \<Rightarrow> None
                 | Some b \<Rightarrow> Some (a @ '','' @ newline_indent level @ b))))"
| "iterencode_dict level [] = Some []"
| "iterencode_dict level ((k, v) # kvs) =
     (case encode_key k of
        None \<Rightarrow> None
      | Some key \<Rightarrow>
          (case iterencode level v of
             None \<Rightarrow> None
           | Some a \<Rightarrow>
               (if kvs = [] then Some (key @ '': '' @ a)
                else (case iterencode_dict level kvs of
                        None \<Rightarrow> None
                      | Some b \<Rightarrow> Some (key @ '': '' @ a @ '','' @ newline_indent level @ b)))))"

definition json_dumps :: "pyval \<Rightarrow> string option" where
  "json_dumps obj = iterencode 0 obj"

section \<open>Sessions, endpoints and the server\<close>

text \<open>
  Modelled from the spec: the session class of \<open>plugins.session\<close> is not among the
  sources. A session carries optional credentials (a uid and flags) and an optional
  storage handle, the field \<open>database\<close>; both are absent as \<open>None\<close>. A handle that is
  present is true in \<open>if session.database\<close>, and credentials that are present are true
  in \<open>if not session.credentials\<close>.
\<close>

record creds =
  uid :: string
  admin :: bool
  member :: bool

record 'h session =
  credentials :: "creds option"
  database :: "'h option"

text \<open>
  What awaiting \<open>self.handlers[handler].exec(self, session, indata)\<close> does: it returns a
  value or raises, and it may have changed the session object it was given (a handler
  attaches the database handle when it first needs it).
\<close>

datatype result = Returned pyval | Raised exn

type_synonym indata = "string \<rightharpoonup> pyval"

type_synonym 'h endpoint = "'h session \<Rightarrow> indata \<Rightarrow> result \<times> 'h session"

text \<open>
  Modelled from the spec: the class \<open>Endpoint\<close> of \<open>plugins.basetypes\<close> is not among the
  sources. By the plugin contract the handler entry that a module registers invokes the
  module's function with the server, the session and the parsed input, so \<open>exec\<close> of
  \<open>Endpoint(executor)\<close> is \<open>executor\<close>.
\<close>

definition Endpoint :: "'h endpoint \<Rightarrow> 'h endpoint" where
  "Endpoint executor = executor"

text \<open>
  The request: its path, and the rest of it (method, query string, cookies, body), which
  only the body parser and the session provider read.
\<close>

record 'b request =
  path :: string
  content :: 'b

text \<open>
  The server object: \<open>self.config.server.traceback\<close> and the dict \<open>self.handlers\<close>, filled
  once at startup with one endpoint per module of the \<open>endpoints\<close> directory.
\<close>

record 'h server =
  traceback :: bool
  handlers :: "string \<rightharpoonup> 'h endpoint"

text \<open>
  Lines 57 to 68 of \<open>Server.__init__\<close>: the loop over \<open>os.listdir("endpoints")\<close> that fills
  \<open>self.handlers\<close>, starting from the empty dict. \<open>import_module\<close> stands for importing
  the module \<open>endpoints.<name>\<close> and calling its \<open>register\<close>: it raises (and the
  constructor with it), or the module has no \<open>register\<close> and is skipped, or \<open>register\<close>
  returns the endpoint that is stored under the name.
\<close>

fun load_endpoints ::
  "(string \<Rightarrow> exn + 'h endpoint option) \<Rightarrow> string list \<Rightarrow>
   (string \<rightharpoonup> 'h endpoint) \<Rightarrow> exn + (string \<rightharpoonup> 'h endpoint)" where
  "load_endpoints import_module [] hs = Inr hs"
| "load_endpoints import_module (endpoint_file # files) hs =
     (if str_endswith endpoint_file ''.py''
      then (let endpoint = take (length endpoint_file - 3) endpoint_file
            in case import_module endpoint of
                 Inl e \<Rightarrow> Inl e
               | Inr None \<Rightarrow> load_endpoints import_module files hs
               | Inr (Some registered) \<Rightarrow>
                   load_endpoints import_module files (hs(endpoint \<mapsto> registered)))
      else load_endpoints import_module files hs)"

text \<open>
  What the server calls outside its own file while it handles one request:
  \<open>plugins.formdata.parse_formdata(body_type, request)\<close> and
  \<open>plugins.session.get_session(self, request)\<close>, each returning or raising;
  \<open>str(uuid.uuid4())\<close>; and the exception \<open>json.dumps\<close> raises on a value it
  cannot serialise.
\<close>

record ('h, 'b) collaborators =
  parse_formdata :: "string \<Rightarrow> 'b request \<Rightarrow> exn + indata"
  get_session :: "'b request \<Rightarrow> exn + 'h session"
  uuid4 :: string
  dumps_error :: "pyval \<Rightarrow> exn"

text \<open>
  What one call of \<open>handle_request\<close> leaves behind: the response it returns (or the
  exception that escapes it), the session object as it is afterwards (\<open>None\<close> when no
  session was obtained), and the strings written to \<open>sys.stderr\<close>, one per \<open>write\<close>.
\<close>

record 'h outcome =
  returned :: "exn + response"
  session_after :: "'h session option"
  stderr :: "string list"

definition BOXER_VERSION :: string where
  "BOXER_VERSION = ''0.1.0''"

text \<open>Lines 77 to 79: the headers every response of the server starts from.\<close>

definition base_headers :: "(string \<times> string) list" where
  "base_headers = [(''Server'', ''ASF Infra Boxer Suite v/'' @ BOXER_VERSION)]"

text \<open>
  Lines 83 to 87: the body type and the endpoint name, from the last segment of the path.
\<close>

definition route :: "string \<Rightarrow> string \<times> string" where
  "route p =
     (let handler = last (str_split (CHR ''/'') p)
      in if str_endswith handler ''.json''
         then (''json'', take (length handler - 5) handler)
         else (''form'', handler))"

text \<open>\<open>if session.database: session.database = None\<close>.\<close>

definition release :: "'h session \<Rightarrow> 'h session" where
  "release session =
     (if database session \<noteq> None then session\<lparr>database := None\<rparr> else session)"

text \<open>
  Lines 118 to 142: the \<open>except\<close> clause, entered with the exception \<open>e\<close>, the session
  and the headers as they are at that moment.
\<close>

definition contain ::
  "'h server \<Rightarrow> ('h, 'b) collaborators \<Rightarrow> 'b request \<Rightarrow>
   (string \<times> string) list \<Rightarrow> 'h session \<Rightarrow> exn \<Rightarrow> 'h outcome" where
  "contain self env request hdrs session e =
     (let session' = release session;
          err = str_join ''\<newline>'' (format_exception e)
      in if traceback self
         then \<lparr>returned = Inr \<lparr>headers = hdrs, status = 500,
                   text = ''API error occurred: \<newline>'' @ err\<rparr>,
               session_after = Some session',
               stderr = []\<rparr>
         else
           (let eid = take 18 (uuid4 env)
            in \<lparr>returned = Inr \<lparr>headers = hdrs, status = 500,
                      text = ''API error occurred. The application journal will have ''
                             @ ''information. Error ID: '' @ eid\<rparr>,
                  session_after = Some session',
                  stderr =
                    (''API Endpoint '' @ path request @ '' got into trouble ('' @ eid
                     @ ''): \<newline>'')
                    # map (\<lambda>line. eid @ '': '' @ line @ ''\<newline>'')
                        (str_split (CHR ''\<newline>'') err)\<rparr>))"

text \<open>
  Lines 103 to 115: what follows the handler's return inside the \<open>try\<close>. A failing
  \<open>json.dumps\<close> raises inside the \<open>try\<close> and lands in the \<open>except\<close> clause, with the
  content type already in the headers.
\<close>

definition serialize ::
  "'h server \<Rightarrow> ('h, 'b) collaborators \<Rightarrow> 'b request \<Rightarrow>
   'h session \<Rightarrow> pyval \<Rightarrow> 'h outcome" where
  "serialize self env request session output =
     (let session' = release session;
          hdrs = AList.update ''content-type'' ''application/json'' base_headers
      in if truthy output \<and> \<not> is_Response output
         then (case json_dumps output of
                 None \<Rightarrow> contain self env request hdrs session' (dumps_error env output)
               | Some jsout \<Rightarrow>
                   \<lparr>returned = Inr \<lparr>headers =
                                      AList.update ''Content-Length'' (str_nat (length jsout)) hdrs,
                                    status = 200, text = jsout\<rparr>,
                    session_after = Some session',
                    stderr = []\<rparr>)
         else (case output of
                 PResponse r \<Rightarrow>
                   \<lparr>returned = Inr r, session_after = Some session', stderr = []\<rparr>
               | _ \<Rightarrow>
                   \<lparr>returned = Inr \<lparr>headers = hdrs, status = 404,
                                    text = ''Content not found''\<rparr>,
                    session_after = Some session',
                    stderr = []\<rparr>))"

text \<open>
  \<open>Server.handle_request\<close>. An exception of the body parser that is not a
  \<open>ValueError\<close>, and any exception of the session provider, is raised outside the
  \<open>try\<close> and escapes.
\<close>

definition handle_request ::
  "'h server \<Rightarrow> ('h, 'b) collaborators \<Rightarrow> 'b request \<Rightarrow> 'h outcome" where
  "handle_request self env request =
     (case route (path request) of (body_type, handler) \<Rightarrow>
        (case parse_formdata env body_type request of
           Inl e \<Rightarrow>
             (if is_ValueError e
              then \<lparr>returned = Inr \<lparr>headers = base_headers, status = 400, text = str_e e\<rparr>,
                    session_after = None, stderr = []\<rparr>
              else \<lparr>returned = Inl e, session_after = None, stderr = []\<rparr>)
         | Inr indata \<Rightarrow>
             (case handlers self handler of
                Some endpoint \<Rightarrow>
                  (case get_session env request of
                     Inl e \<Rightarrow> \<lparr>returned = Inl e, session_after = None, stderr = []\<rparr>
                   | Inr session \<Rightarrow>
                       (case endpoint session indata of
                          (Returned output, session1) \<Rightarrow>
                            serialize self env request session1 output
                        | (Raised e, session1) \<Rightarrow>
                            contain self env request base_headers session1 e))
              | None \<Rightarrow>
                  \<lparr>returned = Inr \<lparr>headers = base_headers, status = 404,
                                   text = ''API Endpoint not found!''\<rparr>,
                   session_after = None, stderr = []\<rparr>)))"

section \<open>The repository endpoint\<close>

text \<open>\<open>indata.get(key)\<close>: \<open>None\<close> for a missing key.\<close>

definition dict_get :: "indata \<Rightarrow> string \<Rightarrow> pyval" where
  "dict_get d k = (case d k of None \<Rightarrow> PNone | Some v \<Rightarrow> v)"

text \<open>
  \<open>process\<close> of \<open>endpoints/repository.py\<close>. Lines 73 to 177, the body of
  \<open>if action == "create"\<close>, talk to LDAP, the file system, GitHub and subprocesses; they
  are the parameter \<open>create\<close>. A call that reaches the end of the function returns
  \<open>None\<close>.
\<close>

definition process :: "'h endpoint \<Rightarrow> 'h endpoint" where
  "process create session indata =
     (if credentials session = None
      then (Returned (PDict [(PStr ''okay'', PBool False),
                             (PStr ''message'',
                              PStr ''You need to be logged in to access this end point'')]),
            session)
      else (let action = dict_get indata ''action''
            in if action = PStr ''create''
               then create session indata
               else (Returned PNone, session)))"

text \<open>\<open>register\<close> of \<open>endpoints/repository.py\<close>: what the startup loop stores.\<close>

definition register :: "'h endpoint \<Rightarrow> 'h endpoint" where
  "register create = Endpoint (process create)"

section \<open>A small installation, for concrete runs\<close>

text \<open>
  Three endpoints beside the repository one: \<open>boom\<close> attaches a database handle to the
  session and then raises a \<open>RuntimeError\<close>; \<open>nothing\<close> returns the empty dict;
  \<open>cafe\<close> attaches a handle and returns a dict with a character outside ASCII.
\<close>

definition RuntimeError_boom :: exn where
  "RuntimeError_boom =
     \<lparr>is_ValueError = False,
      str_e = ''boom'',
      format_exception =
        [''Traceback (most recent call last):\<newline>'',
         ''  File \"endpoints/boom.py\", line 3, in process\<newline>    raise RuntimeError(\"boom\")\<newline>'',
         ''RuntimeError: boom\<newline>'']\<rparr>"

definition boom :: "nat endpoint" where
  "boom session indata = (Raised RuntimeError_boom, session\<lparr>database := Some 1\<rparr>)"

definition nothing :: "nat endpoint" where
  "nothing session indata = (Returned (PDict []), session)"

definition cafe :: "nat endpoint" where
  "cafe session indata =
     (Returned (PDict [(PStr ''name'', PStr [CHR ''c'', CHR ''a'', CHR ''f'', CHR 0xE9])]),
      session\<lparr>database := Some 2\<rparr>)"

definition created :: "nat endpoint" where
  "created session indata =
     (Returned (PDict [(PStr ''okay'', PBool True),
                       (PStr ''message'', PStr ''Repository created!'')]),
      session)"

definition demo_server :: "nat server" where
  "demo_server =
     \<lparr>traceback = False,
      handlers = [''repository'' \<mapsto> register created, ''boom'' \<mapsto> boom,
                  ''nothing'' \<mapsto> nothing, ''cafe'' \<mapsto> cafe]\<rparr>"

text \<open>
  A server whose \<open>endpoints\<close> directory holds two entries: the file \<open>status.json.py\<close>
  and, beside it, the package directory \<open>status\<close> with the module \<open>json.py\<close>, whose
  \<open>register\<close> returns the endpoint \<open>nothing\<close>. For the file name \<open>status.json.py\<close>
  the loop imports \<open>endpoints.status.json\<close>, which is the module \<open>json\<close> of the package
  \<open>endpoints.status\<close>, and stores what its \<open>register\<close> returns under the name
  \<open>status.json\<close>; the entry \<open>status\<close> of the listing does not end in \<open>.py\<close> and is
  passed over.
\<close>

definition dotted_server :: "nat server" where
  "dotted_server = \<lparr>traceback = False, handlers = [''status.json'' \<mapsto> nothing]\<rparr>"

definition ModuleNotFoundError :: exn where
  "ModuleNotFoundError =
     \<lparr>is_ValueError = False,
      str_e = ''No module named '' @ [CHR 0x27] @ ''endpoints.status'' @ [CHR 0x27],
      format_exception =
        [''ModuleNotFoundError: No module named '' @ [CHR 0x27] @ ''endpoints.status''
         @ [CHR 0x27] @ ''\<newline>'']\<rparr>"

text \<open>
  Importing in that directory, given its listing: \<open>endpoints.status.json\<close> is found only
  when the package directory \<open>status\<close> is there; with the file \<open>status.json.py\<close>
  alone the import raises \<open>ModuleNotFoundError\<close>, and the constructor with it.
\<close>

definition dotted_modules :: "string list \<Rightarrow> string \<Rightarrow> exn + nat endpoint option" where
  "dotted_modules listing name =
     (if name = ''status.json'' \<and> ''status'' \<in> set listing
      then Inr (Some nothing)
      else Inl ModuleNotFoundError)"

text \<open>
  The modules behind the file names of the \<open>endpoints\<close> directory of \<open>demo_server\<close>:
  \<open>repository.py\<close>, \<open>boom.py\<close>, \<open>nothing.py\<close> and \<open>cafe.py\<close>, each with a
  \<open>register\<close>.
\<close>

definition demo_modules :: "string \<Rightarrow> exn + nat endpoint option" where
  "demo_modules name =
     (if name = ''repository'' then Inr (Some (register created))
      else if name = ''boom'' then Inr (Some boom)
      else if name = ''nothing'' then Inr (Some nothing)
      else if name = ''cafe'' then Inr (Some cafe)
      else Inl ModuleNotFoundError)"

text \<open>
  The collaborators: the request's content is its body; with body type \<open>json\<close> any body
  but \<open>{}\<close> is refused with a \<open>ValueError\<close>, and every accepted body gives no fields;
  the session has no credentials and no database handle yet.
\<close>

definition Erroneous_payload :: exn where
  "Erroneous_payload =
     \<lparr>is_ValueError = True,
      str_e = ''Erroneous payload received'',
      format_exception = [''ValueError: Erroneous payload received\<newline>'']\<rparr>"

definition not_serializable :: "pyval \<Rightarrow> exn" where
  "not_serializable v =
     \<lparr>is_ValueError = False,
      str_e = ''Object is not JSON serializable'',
      format_exception = [''TypeError: Object is not JSON serializable\<newline>'']\<rparr>"

definition demo_env :: "(nat, string) collaborators" where
  "demo_env =
     \<lparr>parse_formdata =
        (\<lambda>body_type request.
           if body_type = ''json'' \<and> content request \<noteq> ''{}''
           then Inl Erroneous_payload else Inr Map.empty),
      get_session = (\<lambda>request. Inr \<lparr>credentials = None, database = None\<rparr>),
      uuid4 = ''123e4567-e89b-42d3-a456-426614174000'',
      dumps_error = not_serializable\<rparr>"

text \<open>The same collaborators, for a client that is logged in.\<close>

definition alice :: creds where
  "alice = \<lparr>uid = ''alice'', admin = False, member = True\<rparr>"

definition alice_env :: "(nat, string) collaborators" where
  "alice_env =
     demo_env\<lparr>get_session := (\<lambda>request. Inr \<lparr>credentials = Some alice, database = None\<rparr>)\<rparr>"

section \<open>Splitting and joining\<close>

lemma str_split_not_Nil: "str_split sep s \<noteq> []"
  by (induction s) (auto split: list.splits)

lemma str_split_no_sep: "sep \<notin> set s \<Longrightarrow> str_split sep s = [s]"
  by (induction s) auto

lemma str_split_append_shape:
  "sep \<notin> set n \<Longrightarrow> \<exists>w ws. str_split sep (p @ sep # n) = w # ws @ [n]"
proof (induction p)
  case Nil
  then show ?case by (simp add: str_split_no_sep)
next
  case (Cons c p)
  then obtain w ws where "str_split sep (p @ sep # n) = w # ws @ [n]" by blast
  then show ?case
    by (cases "c = sep") (auto intro: exI [of _ "w # ws"])
qed

lemma last_str_split_append:
  "sep \<notin> set n \<Longrightarrow> last (str_split sep (p @ sep # n)) = n"
  using str_split_append_shape [of sep n p] by auto

text \<open>Joining the pieces of a split with the separator gives the string back.\<close>

lemma str_join_split: "str_join [sep] (str_split sep s) = s"
proof (induction s)
  case Nil
  then show ?case by simp
next
  case (Cons c s)
  show ?case
  proof (cases "str_split sep s")
    case Nil
    then show ?thesis using str_split_not_Nil [of sep s] by simp
  next
    case (Cons w ws)
    with Cons.IH show ?thesis
      by (cases ws) auto
  qed
qed

lemma str_endswith_append: "str_endswith (n @ suf) suf"
  by (simp add: str_endswith_def)

section \<open>The encoder writes ASCII only\<close>

lemma is_ascii_Char: "is_ascii (Char b0 b1 b2 b3 b4 b5 b6 b7) = (\<not> b7)"
proof -
  have "(of_char (Char b0 b1 b2 b3 b4 b5 b6 False) :: nat) < 128"
    by (simp add: of_char_Char)
  moreover have "\<not> (of_char (Char b0 b1 b2 b3 b4 b5 b6 True) :: nat) < 128"
    by (simp add: of_char_Char)
  ultimately show ?thesis by (cases b7) (simp_all add: is_ascii_def)
qed

lemma utf8_len_ascii: "list_all is_ascii s \<Longrightarrow> utf8_len s = length s"
  by (induction s) (simp_all add: utf8_len_def)

lemma is_ascii_digit: "is_ascii (digit n)"
proof -
  have "digit n \<in> set ''0123456789''"
    unfolding digit_def by (rule nth_mem) simp
  then show ?thesis by (auto simp: is_ascii_Char)
qed

lemma is_ascii_hexdigit: "is_ascii (hexdigit n)"
proof -
  have "hexdigit n \<in> set ''0123456789abcdef''"
    unfolding hexdigit_def by (rule nth_mem) simp
  then show ?thesis by (auto simp: is_ascii_Char)
qed

lemma ascii_str_nat: "list_all is_ascii (str_nat n)"
proof (induction n rule: str_nat.induct)
  case (1 n)
  then show ?case
    by (subst str_nat.simps) (simp add: is_ascii_digit)
qed

lemma ascii_str_int: "list_all is_ascii (str_int i)"
  by (simp add: str_int_def ascii_str_nat is_ascii_Char)

lemma ascii_escape_char: "list_all is_ascii (escape_char c)"
  by (simp add: escape_char_def is_ascii_hexdigit is_ascii_Char) (simp add: is_ascii_def)

lemma ascii_encode_basestring: "list_all is_ascii (encode_basestring_ascii s)"
  by (induction s) (simp_all add: encode_basestring_ascii_def ascii_escape_char is_ascii_Char)

lemma ascii_newline_indent: "list_all is_ascii (newline_indent level)"
  by (simp add: newline_indent_def is_ascii_Char list_all_iff)

lemma ascii_encode_key: "encode_key k = Some s \<Longrightarrow> list_all is_ascii s"
  by (cases k) (auto simp: ascii_encode_basestring)

lemma ascii_iterencode:
  "(\<And>s. iterencode level v = Some s \<Longrightarrow> list_all is_ascii s)"
  "(\<And>s. iterencode_list level xs = Some s \<Longrightarrow> list_all is_ascii s)"
  "(\<And>s. iterencode_dict level kvs = Some s \<Longrightarrow> list_all is_ascii s)"
proof (induction level v and level xs and level kvs
       rule: iterencode_iterencode_list_iterencode_dict.induct)
  case (5 level xs)
  then show ?case
    by (auto simp: ascii_newline_indent is_ascii_Char split: if_splits option.splits)
next
  case (6 level kvs)
  then show ?case
    by (auto simp: ascii_newline_indent is_ascii_Char split: if_splits option.splits)
next
  case (10 level x xs)
  then show ?case
    by (auto simp: ascii_newline_indent is_ascii_Char split: if_splits option.splits)
next
  case (12 level k v kvs)
  then show ?case
    by (auto simp: ascii_newline_indent is_ascii_Char dest: ascii_encode_key
             split: if_splits option.splits)
qed (auto simp: ascii_str_int ascii_encode_basestring is_ascii_Char)

lemma ascii_json_dumps: "json_dumps obj = Some jsout \<Longrightarrow> list_all is_ascii jsout"
  unfolding json_dumps_def by (rule ascii_iterencode(1))

section \<open>Routing\<close>

text \<open>Whatever precedes the last slash of the path plays no part.\<close>

lemma route_form:
  assumes "CHR ''/'' \<notin> set n" and "\<not> str_endswith n ''.json''"
  shows "route (p @ ''/'' @ n) = (''form'', n)"
proof -
  have "last (str_split (CHR ''/'') (p @ CHR ''/'' # n)) = n"
    using assms(1) by (rule last_str_split_append)
  then show ?thesis using assms(2) by (simp add: route_def)
qed

lemma route_json:
  assumes "CHR ''/'' \<notin> set n"
  shows "route (p @ ''/'' @ n @ ''.json'') = (''json'', n)"
proof -
  have "CHR ''/'' \<notin> set (n @ ''.json'')" using assms by simp
  then have "last (str_split (CHR ''/'') (p @ CHR ''/'' # (n @ ''.json''))) = n @ ''.json''"
    by (rule last_str_split_append)
  then show ?thesis using str_endswith_append [of n "''.json''"] by (simp add: route_def)
qed

section \<open>The registry\<close>

text \<open>Every name the loop adds is a file name of the listing without its \<open>.py\<close>.\<close>

lemma load_endpoints_names:
  "load_endpoints import_module files hs = Inr hs' \<Longrightarrow> hs' n = Some endpoint \<Longrightarrow>
   hs n = Some endpoint \<or> (\<exists>f \<in> set files. f = n @ ''.py'')"
proof (induction files arbitrary: hs)
  case Nil
  then show ?case by simp
next
  case (Cons endpoint_file files)
  show ?case
  proof (cases "str_endswith endpoint_file ''.py''")
    case False
    with Cons show ?thesis by auto
  next
    case True
    then have "drop (length endpoint_file - 3) endpoint_file = ''.py''"
      by (simp add: str_endswith_def numeral_3_eq_3)
    then have name: "endpoint_file = take (length endpoint_file - 3) endpoint_file @ ''.py''"
      using append_take_drop_id [of "length endpoint_file - 3" endpoint_file] by simp
    show ?thesis
    proof (cases "import_module (take (length endpoint_file - 3) endpoint_file)")
      case (Inl e)
      with Cons.prems True show ?thesis by (simp add: Let_def)
    next
      case (Inr m)
      show ?thesis
      proof (cases m)
        case None
        with Cons Inr True show ?thesis by (auto simp: Let_def)
      next
        case (Some registered)
        with Cons.prems Inr True
        have "load_endpoints import_module files
                (hs(take (length endpoint_file - 3) endpoint_file \<mapsto> registered)) = Inr hs'"
          by (simp add: Let_def)
        from Cons.IH [OF this Cons.prems(2)] name show ?thesis
          by (auto split: if_splits)
      qed
    qed
  qed
qed

lemma registered_name_no_slash:
  assumes "load_endpoints import_module files Map.empty = Inr hs"
    and "\<forall>f \<in> set files. CHR ''/'' \<notin> set f"
    and "hs n = Some endpoint"
  shows "CHR ''/'' \<notin> set n"
proof -
  from load_endpoints_names [OF assms(1,3)] obtain f where "f \<in> set files" "f = n @ ''.py''"
    by auto
  with assms(2) show ?thesis by auto
qed

section \<open>Dispatch\<close>

text \<open>
  Once the body is parsed, the endpoint found and the session obtained, the request is
  dispatched: the endpoint runs, and its return goes to the serializer, its exception to
  the \<open>except\<close> clause.
\<close>

lemma handle_request_dispatch:
  assumes "route (path request) = (body_type, handler)"
    and "parse_formdata env body_type request = Inr indata"
    and "handlers self handler = Some endpoint"
    and "get_session env request = Inr session"
  shows "handle_request self env request =
           (case endpoint session indata of
              (Returned output, session1) \<Rightarrow> serialize self env request session1 output
            | (Raised e, session1) \<Rightarrow> contain self env request base_headers session1 e)"
  using assms by (simp add: handle_request_def)

lemma release_eq: "release session = session\<lparr>database := None\<rparr>"
  by (simp add: release_def)

lemma session_after_contain:
  "session_after (contain self env request hdrs session e) = Some (session\<lparr>database := None\<rparr>)"
  by (simp add: contain_def release_eq Let_def)

lemma session_after_serialize:
  "session_after (serialize self env request session output) =
     Some (session\<lparr>database := None\<rparr>)"
  by (simp add: serialize_def release_eq Let_def session_after_contain
           split: option.splits pyval.splits)

lemmas demo_defs =
  demo_server_def demo_env_def boom_def nothing_def cafe_def created_def
  RuntimeError_boom_def Erroneous_payload_def not_serializable_def

lemmas run_defs =
  handle_request_def route_def str_endswith_def contain_def serialize_def release_def
  base_headers_def BOXER_VERSION_def Let_def

text \<open>The runs of the small installation that several results below start from.\<close>

lemma route_boom: "route ''/api/boom'' = (''form'', ''boom'')"
  by (simp add: route_def str_endswith_def)

lemma demo_parse_form: "parse_formdata demo_env ''form'' request = Inr Map.empty"
  by (simp add: demo_env_def)

lemma demo_get_session:
  "get_session demo_env request = Inr \<lparr>credentials = None, database = None\<rparr>"
  by (simp add: demo_env_def)

lemma demo_boom:
  "boom \<lparr>credentials = None, database = None\<rparr> Map.empty =
     (Raised RuntimeError_boom, \<lparr>credentials = None, database = Some 1\<rparr>)"
  by (simp add: boom_def)

lemma demo_eid: "take 18 (uuid4 demo_env) = ''123e4567-e89b-42d3''"
  by (simp add: demo_env_def)

section \<open>Error containment\<close>

text \<open>
  Claim C1, as amended. When a dispatched handler raises and \<open>traceback\<close> is false,
  \<open>handle_request\<close> returns status 500 with a body that is the fixed message followed by
  the error id (the first 18 characters of a fresh UUID) and nothing of the traceback. The
  first string written to the error stream is a header line that starts with
  \<open>API Endpoint\<close> and carries the id in parentheses; after it comes one write per line
  of the traceback text, each of them the id, a colon, a space, the line and a newline. So
  every traceback line is prefixed with the id of the response, and the header line is not.
\<close>

theorem opaque_failure_response_and_log:
  assumes "route (path request) = (body_type, handler)"
    and "parse_formdata env body_type request = Inr indata"
    and "handlers self handler = Some endpoint"
    and "get_session env request = Inr session"
    and "endpoint session indata = (Raised e, session1)"
    and "\<not> traceback self"
  shows "returned (handle_request self env request) =
           Inr \<lparr>headers = base_headers, status = 500,
                text = ''API error occurred. The application journal will have information. Error ID: ''
                       @ take 18 (uuid4 env)\<rparr>
         \<and> stderr (handle_request self env request) =
             (''API Endpoint '' @ path request @ '' got into trouble ('' @ take 18 (uuid4 env)
              @ ''): \<newline>'')
             # map (\<lambda>line. take 18 (uuid4 env) @ '': '' @ line @ ''\<newline>'')
                 (str_split (CHR ''\<newline>'') (str_join ''\<newline>'' (format_exception e)))
         \<and> (\<forall>w \<in> set (tl (stderr (handle_request self env request))).
               prefix (take 18 (uuid4 env)) w)"
  using handle_request_dispatch [OF assms(1-4)] assms(5,6)
  by (auto simp: contain_def Let_def)

theorem opaque_failure_response_and_log_witness:
  "returned (handle_request demo_server demo_env \<lparr>path = ''/api/boom'', content = ''''\<rparr>) =
     Inr \<lparr>headers = [(''Server'', ''ASF Infra Boxer Suite v/0.1.0'')], status = 500,
          text = ''API error occurred. The application journal will have information. Error ID: 123e4567-e89b-42d3''\<rparr>
   \<and> tl (stderr (handle_request demo_server demo_env \<lparr>path = ''/api/boom'', content = ''''\<rparr>)) =
       [''123e4567-e89b-42d3: Traceback (most recent call last):\<newline>'',
        ''123e4567-e89b-42d3: \<newline>'',
        ''123e4567-e89b-42d3:   File \"endpoints/boom.py\", line 3, in process\<newline>'',
        ''123e4567-e89b-42d3:     raise RuntimeError(\"boom\")\<newline>'',
        ''123e4567-e89b-42d3: \<newline>'',
        ''123e4567-e89b-42d3: RuntimeError: boom\<newline>'',
        ''123e4567-e89b-42d3: \<newline>'']"
proof -
  let ?request = "\<lparr>path = ''/api/boom'', content = ''''\<rparr> :: string request"
  have r: "route (path ?request) = (''form'', ''boom'')"
    by (simp add: route_boom)
  have h: "handlers demo_server ''boom'' = Some boom"
    by (simp add: demo_server_def)
  have t: "\<not> traceback demo_server"
    by (simp add: demo_server_def)
  show ?thesis
    using opaque_failure_response_and_log
            [OF r demo_parse_form h demo_get_session demo_boom t]
    by (simp add: base_headers_def BOXER_VERSION_def demo_eid RuntimeError_boom_def)
qed

text \<open>
  Claim C1 as stated fails: the \<open>boom\<close> endpoint raises, the response carries the id
  \<open>123e4567-e89b-42d3\<close>, and the first line written to the error stream for that failure
  starts with \<open>API Endpoint\<close>, not with the id.
\<close>

theorem log_header_line_not_prefixed:
  "hd (stderr (handle_request demo_server demo_env \<lparr>path = ''/api/boom'', content = ''''\<rparr>)) =
     ''API Endpoint /api/boom got into trouble (123e4567-e89b-42d3): \<newline>''
   \<and> \<not> prefix (take 18 (uuid4 demo_env))
        (hd (stderr (handle_request demo_server demo_env
                       \<lparr>path = ''/api/boom'', content = ''''\<rparr>)))"
  by (simp add: run_defs demo_defs)

text \<open>
  Claim C2. Whenever a request is dispatched (the body parsed, the endpoint found, the
  session obtained), the session object that \<open>handle_request\<close> leaves behind is the one
  the handler left, with its database handle set to \<open>None\<close>: whether the handler returned
  or raised, whatever it returned, and whatever the \<open>traceback\<close> setting is.
\<close>

theorem dispatch_releases_database:
  assumes "route (path request) = (body_type, handler)"
    and "parse_formdata env body_type request = Inr indata"
    and "handlers self handler = Some endpoint"
    and "get_session env request = Inr session"
    and "endpoint session indata = (r, session1)"
  shows "session_after (handle_request self env request) = Some (session1\<lparr>database := None\<rparr>)
         \<and> database (the (session_after (handle_request self env request))) = None"
  using handle_request_dispatch [OF assms(1-4)] assms(5)
  by (simp add: session_after_contain session_after_serialize split: result.splits)

theorem dispatch_releases_database_witness:
  "snd (boom \<lparr>credentials = None, database = None\<rparr> Map.empty) =
     \<lparr>credentials = None, database = Some 1\<rparr>
   \<and> session_after (handle_request demo_server demo_env
                      \<lparr>path = ''/api/boom'', content = ''''\<rparr>) =
       Some \<lparr>credentials = None, database = None\<rparr>
   \<and> snd (cafe \<lparr>credentials = None, database = None\<rparr> Map.empty) =
       \<lparr>credentials = None, database = Some 2\<rparr>
   \<and> session_after (handle_request demo_server demo_env
                      \<lparr>path = ''/api/cafe'', content = ''''\<rparr>) =
       Some \<lparr>credentials = None, database = None\<rparr>"
proof -
  let ?boom = "\<lparr>path = ''/api/boom'', content = ''''\<rparr> :: string request"
  let ?cafe = "\<lparr>path = ''/api/cafe'', content = ''''\<rparr> :: string request"
  have r: "route (path ?boom) = (''form'', ''boom'')"
    by (simp add: route_boom)
  have h: "handlers demo_server ''boom'' = Some boom"
    by (simp add: demo_server_def)
  have r': "route (path ?cafe) = (''form'', ''cafe'')"
    by (simp add: route_def str_endswith_def)
  have h': "handlers demo_server ''cafe'' = Some cafe"
    by (simp add: demo_server_def)
  have c: "cafe \<lparr>credentials = None, database = None\<rparr> Map.empty =
             (Returned (PDict [(PStr ''name'', PStr [CHR ''c'', CHR ''a'', CHR ''f'', CHR 0xE9])]),
              \<lparr>credentials = None, database = Some 2\<rparr>)"
    by (simp add: cafe_def)
  show ?thesis
    using dispatch_releases_database [OF r demo_parse_form h demo_get_session demo_boom]
      dispatch_releases_database [OF r' demo_parse_form h' demo_get_session c]
    by (simp add: demo_boom c)
qed

text \<open>
  Claim C3. For a dispatched handler that raises: the body returned with \<open>traceback\<close> true
  is the fixed prefix \<open>API error occurred:\<close> and a newline, followed by exactly the
  traceback text that the run with \<open>traceback\<close> false writes to the error stream, that is,
  the lines written there after the header, each without its id prefix and its final
  newline, joined by newlines. With \<open>traceback\<close> true nothing is written to the stream.
\<close>

theorem disclosed_traceback_matches_log:
  assumes "route (path request) = (body_type, handler)"
    and "parse_formdata env body_type request = Inr indata"
    and "handlers self handler = Some endpoint"
    and "get_session env request = Inr session"
    and "endpoint session indata = (Raised e, session1)"
  shows "returned (handle_request (self\<lparr>traceback := True\<rparr>) env request) =
           Inr \<lparr>headers = base_headers, status = 500,
                text = ''API error occurred: \<newline>''
                       @ str_join ''\<newline>''
                           (map (\<lambda>w. butlast (drop (length (take 18 (uuid4 env)) + 2) w))
                              (tl (stderr (handle_request (self\<lparr>traceback := False\<rparr>)
                                             env request))))\<rparr>
         \<and> stderr (handle_request (self\<lparr>traceback := True\<rparr>) env request) = []"
proof -
  let ?err = "str_join ''\<newline>'' (format_exception e)"
  let ?eid = "take 18 (uuid4 env)"
  have t: "handle_request (self\<lparr>traceback := True\<rparr>) env request =
             contain (self\<lparr>traceback := True\<rparr>) env request base_headers session1 e"
    using handle_request_dispatch [of request body_type handler env indata
            "self\<lparr>traceback := True\<rparr>" endpoint session] assms
    by simp
  have f: "handle_request (self\<lparr>traceback := False\<rparr>) env request =
             contain (self\<lparr>traceback := False\<rparr>) env request base_headers session1 e"
    using handle_request_dispatch [of request body_type handler env indata
            "self\<lparr>traceback := False\<rparr>" endpoint session] assms
    by simp
  have "map (\<lambda>w. butlast (drop (length ?eid + 2) w))
          (map (\<lambda>line. ?eid @ '': '' @ line @ ''\<newline>'') xs) = xs" for xs
    by (induction xs) (simp_all add: butlast_append)
  then have "str_join ''\<newline>''
               (map (\<lambda>w. butlast (drop (length ?eid + 2) w))
                  (tl (stderr (contain (self\<lparr>traceback := False\<rparr>) env request
                                 base_headers session1 e))))
             = ?err"
    by (simp add: contain_def Let_def str_join_split)
  then show ?thesis
    unfolding t f by (simp add: contain_def Let_def)
qed

theorem disclosed_traceback_matches_log_witness:
  "returned (handle_request (demo_server\<lparr>traceback := True\<rparr>) demo_env
               \<lparr>path = ''/api/boom'', content = ''''\<rparr>) =
     Inr \<lparr>headers = [(''Server'', ''ASF Infra Boxer Suite v/0.1.0'')], status = 500,
          text = ''API error occurred: \<newline>''
                 @ ''Traceback (most recent call last):\<newline>\<newline>''
                 @ ''  File \"endpoints/boom.py\", line 3, in process\<newline>''
                 @ ''    raise RuntimeError(\"boom\")\<newline>\<newline>''
                 @ ''RuntimeError: boom\<newline>''\<rparr>"
proof -
  let ?request = "\<lparr>path = ''/api/boom'', content = ''''\<rparr> :: string request"
  have r: "route (path ?request) = (''form'', ''boom'')"
    by (simp add: route_boom)
  have h: "handlers demo_server ''boom'' = Some boom"
    by (simp add: demo_server_def)
  have l: "tl (stderr (handle_request (demo_server\<lparr>traceback := False\<rparr>) demo_env ?request)) =
       [''123e4567-e89b-42d3: Traceback (most recent call last):\<newline>'',
        ''123e4567-e89b-42d3: \<newline>'',
        ''123e4567-e89b-42d3:   File \"endpoints/boom.py\", line 3, in process\<newline>'',
        ''123e4567-e89b-42d3:     raise RuntimeError(\"boom\")\<newline>'',
        ''123e4567-e89b-42d3: \<newline>'',
        ''123e4567-e89b-42d3: RuntimeError: boom\<newline>'',
        ''123e4567-e89b-42d3: \<newline>'']"
    by (simp add: run_defs demo_defs)
  show ?thesis
    using disclosed_traceback_matches_log
            [OF r demo_parse_form h demo_get_session demo_boom]
    by (simp add: l demo_eid base_headers_def BOXER_VERSION_def)
qed

section \<open>Routing and the registry\<close>

text \<open>
  Claim C4, as amended. Let the registry be what the startup loop builds from the listing
  of the \<open>endpoints\<close> directory (file names, so without a slash). For every registered
  endpoint name \<open>n\<close> that does not itself end in \<open>.json\<close>, and for every path prefix
  \<open>p\<close> (\<open>/api\<close> is one), the paths \<open>p/n\<close> and \<open>p/n.json\<close> give the same name \<open>n\<close>,
  with body type \<open>form\<close> for the first and \<open>json\<close> for the second, and the lookup of
  that name in \<open>handlers\<close>, an exact comparison of strings, finds the same entry for
  both.
\<close>

theorem route_form_and_json_same_entry:
  assumes "load_endpoints import_module files Map.empty = Inr (handlers self)"
    and "\<forall>f \<in> set files. CHR ''/'' \<notin> set f"
    and "handlers self n = Some endpoint"
    and "\<not> str_endswith n ''.json''"
  shows "route (p @ ''/'' @ n) = (''form'', n)
         \<and> route (p @ ''/'' @ n @ ''.json'') = (''json'', n)
         \<and> handlers self (snd (route (p @ ''/'' @ n))) = Some endpoint
         \<and> handlers self (snd (route (p @ ''/'' @ n @ ''.json''))) = Some endpoint"
proof -
  have s: "CHR ''/'' \<notin> set n"
    using assms(1-3) by (rule registered_name_no_slash)
  have f: "route (p @ ''/'' @ n) = (''form'', n)"
    using s assms(4) by (rule route_form)
  have j: "route (p @ ''/'' @ n @ ''.json'') = (''json'', n)"
    using s by (rule route_json)
  show ?thesis
    unfolding f j using assms(3) by simp
qed

theorem route_form_and_json_same_entry_witness:
  "route ''/api/repository'' = (''form'', ''repository'')
   \<and> route ''/api/repository.json'' = (''json'', ''repository'')
   \<and> handlers demo_server (snd (route ''/api/repository'')) = Some (register created)
   \<and> handlers demo_server (snd (route ''/api/repository.json'')) = Some (register created)"
proof -
  let ?files = "[''repository.py'', ''boom.py'', ''__pycache__'', ''nothing.py'', ''cafe.py'']"
  have l: "load_endpoints demo_modules ?files Map.empty = Inr (handlers demo_server)"
    by (simp add: demo_modules_def demo_server_def str_endswith_def)
  have s: "\<forall>f \<in> set ?files. CHR ''/'' \<notin> set f"
    by simp
  have h: "handlers demo_server ''repository'' = Some (register created)"
    by (simp add: demo_server_def)
  have j: "\<not> str_endswith ''repository'' ''.json''"
    by (simp add: str_endswith_def)
  show ?thesis
    using route_form_and_json_same_entry [OF l s h j, of "''/api''"] h by simp
qed

text \<open>
  Claim C4 as stated fails for a registered name that ends in \<open>.json\<close>. The
  \<open>endpoints\<close> directory lists the file \<open>status.json.py\<close> and the package directory
  \<open>status\<close> (holding \<open>json.py\<close>); the loop imports \<open>endpoints.status.json\<close> and
  registers the name \<open>status.json\<close>. The path \<open>/api/status.json\<close> then gives body type
  \<open>json\<close> and the name \<open>status\<close>, which is not registered, and the request ends as
  \<open>API Endpoint not found!\<close>. With the file alone, without the package directory, the
  import raises and no registry comes to be.
\<close>

theorem route_name_with_json_suffix:
  "load_endpoints (dotted_modules [''status.json.py'', ''status''])
     [''status.json.py'', ''status''] Map.empty = Inr (handlers dotted_server)
   \<and> load_endpoints (dotted_modules [''status.json.py''])
       [''status.json.py''] Map.empty = Inl ModuleNotFoundError
   \<and> handlers dotted_server ''status.json'' = Some nothing
   \<and> route (''/api/'' @ ''status.json'') = (''json'', ''status'')
   \<and> handlers dotted_server (snd (route (''/api/'' @ ''status.json''))) = None
   \<and> returned (handle_request dotted_server demo_env
                  \<lparr>path = ''/api/'' @ ''status.json'', content = ''{}''\<rparr>) =
       Inr \<lparr>headers = [(''Server'', ''ASF Infra Boxer Suite v/0.1.0'')], status = 404,
            text = ''API Endpoint not found!''\<rparr>"
  by (simp add: run_defs demo_defs dotted_server_def dotted_modules_def)

text \<open>
  Claim C5, as amended. For every request whose body parses and whose derived endpoint
  name is not in the registry, \<open>handle_request\<close> returns status 404 with the body
  \<open>API Endpoint not found!\<close>; no session is obtained, no handler runs and nothing is
  written to the error stream.
\<close>

theorem unregistered_endpoint_not_found:
  assumes "route (path request) = (body_type, handler)"
    and "handlers self handler = None"
    and "parse_formdata env body_type request = Inr indata"
  shows "handle_request self env request =
           \<lparr>returned = Inr \<lparr>headers = base_headers, status = 404,
                             text = ''API Endpoint not found!''\<rparr>,
            session_after = None, stderr = []\<rparr>"
  using assms by (simp add: handle_request_def)

theorem unregistered_endpoint_not_found_witness:
  "handle_request demo_server demo_env \<lparr>path = ''/api/doesnotexist'', content = ''''\<rparr> =
     \<lparr>returned = Inr \<lparr>headers = [(''Server'', ''ASF Infra Boxer Suite v/0.1.0'')],
                       status = 404, text = ''API Endpoint not found!''\<rparr>,
      session_after = None, stderr = []\<rparr>"
proof -
  let ?request = "\<lparr>path = ''/api/doesnotexist'', content = ''''\<rparr> :: string request"
  have r: "route (path ?request) = (''form'', ''doesnotexist'')"
    by (simp add: route_def str_endswith_def)
  have h: "handlers demo_server ''doesnotexist'' = None"
    by (simp add: demo_server_def)
  show ?thesis
    using unregistered_endpoint_not_found [OF r h demo_parse_form]
    by (simp add: base_headers_def BOXER_VERSION_def)
qed

text \<open>
  Claim C5 as stated fails for a request whose body does not parse: the name
  \<open>doesnotexist\<close> is not registered, and the answer is status 400 with the parser's
  message, not 404.
\<close>

theorem unregistered_endpoint_bad_body:
  "handlers demo_server (snd (route ''/api/doesnotexist.json'')) = None
   \<and> returned (handle_request demo_server demo_env
                  \<lparr>path = ''/api/doesnotexist.json'', content = ''{''\<rparr>) =
       Inr \<lparr>headers = [(''Server'', ''ASF Infra Boxer Suite v/0.1.0'')], status = 400,
            text = ''Erroneous payload received''\<rparr>"
  by (simp add: run_defs demo_defs)

text \<open>
  Claim C9. The body is parsed before the registry is looked at: whenever the parser raises
  a \<open>ValueError\<close>, \<open>handle_request\<close> returns status 400 with the text of the exception,
  whatever the registry holds, so also for a name that is not registered; no session is
  obtained and no handler runs.
\<close>

theorem bad_body_before_lookup:
  assumes "parse_formdata env (fst (route (path request))) request = Inl e"
    and "is_ValueError e"
  shows "handle_request self env request =
           \<lparr>returned = Inr \<lparr>headers = base_headers, status = 400, text = str_e e\<rparr>,
            session_after = None, stderr = []\<rparr>"
  using assms by (cases "route (path request)") (simp add: handle_request_def)

theorem bad_body_before_lookup_witness:
  "handlers demo_server (snd (route ''/api/doesnotexist.json'')) = None
   \<and> handle_request demo_server demo_env
        \<lparr>path = ''/api/doesnotexist.json'', content = ''{''\<rparr> =
       \<lparr>returned = Inr \<lparr>headers = [(''Server'', ''ASF Infra Boxer Suite v/0.1.0'')],
                         status = 400, text = ''Erroneous payload received''\<rparr>,
        session_after = None, stderr = []\<rparr>"
proof -
  let ?request = "\<lparr>path = ''/api/doesnotexist.json'', content = ''{''\<rparr> :: string request"
  have r: "route ''/api/doesnotexist.json'' = (''json'', ''doesnotexist'')"
    by (simp add: route_def str_endswith_def)
  have p: "parse_formdata demo_env (fst (route (path ?request))) ?request = Inl Erroneous_payload"
    by (simp add: r demo_env_def)
  have v: "is_ValueError Erroneous_payload"
    by (simp add: Erroneous_payload_def)
  have h: "handlers demo_server ''doesnotexist'' = None"
    by (simp add: demo_server_def)
  show ?thesis
    using bad_body_before_lookup [OF p v, of demo_server] h
    by (simp add: r base_headers_def BOXER_VERSION_def Erroneous_payload_def)
qed

section \<open>Serialization\<close>

text \<open>
  Claim C6. For every dispatched handler whose result is true as a condition (a non-empty
  dict, list or string for instance), is not a pre-built response and is a value the JSON
  encoder accepts, \<open>handle_request\<close> returns status 200 with the encoded result as the
  body, the content type \<open>application/json\<close>, and a \<open>Content-Length\<close> header that is
  the decimal number of bytes of the body in UTF-8. The source computes the header from
  the number of characters; the two agree because the encoder writes ASCII only.
\<close>

theorem serialize_json_content_length:
  assumes "route (path request) = (body_type, handler)"
    and "parse_formdata env body_type request = Inr indata"
    and "handlers self handler = Some endpoint"
    and "get_session env request = Inr session"
    and "endpoint session indata = (Returned output, session1)"
    and "truthy output"
    and "\<not> is_Response output"
    and "json_dumps output = Some jsout"
  shows "returned (handle_request self env request) =
           Inr \<lparr>headers = [(''Server'', ''ASF Infra Boxer Suite v/'' @ BOXER_VERSION),
                           (''content-type'', ''application/json''),
                           (''Content-Length'', str_nat (utf8_len jsout))],
                status = 200, text = jsout\<rparr>"
  using handle_request_dispatch [OF assms(1-4)] assms(5-8)
    utf8_len_ascii [OF ascii_json_dumps [OF assms(8)]]
  by (simp add: serialize_def Let_def base_headers_def)

theorem serialize_json_content_length_witness:
  "json_dumps (PDict [(PStr ''name'', PStr [CHR ''c'', CHR ''a'', CHR ''f'', CHR 0xE9])]) =
     Some (''{\<newline>  \"name\": \"caf'' @ [CHR 0x5C] @ ''u00e9\"\<newline>}'')
   \<and> returned (handle_request demo_server demo_env \<lparr>path = ''/api/cafe'', content = ''''\<rparr>) =
       Inr \<lparr>headers = [(''Server'', ''ASF Infra Boxer Suite v/0.1.0''),
                       (''content-type'', ''application/json''),
                       (''Content-Length'', ''25'')],
            status = 200,
            text = ''{\<newline>  \"name\": \"caf'' @ [CHR 0x5C] @ ''u00e9\"\<newline>}''\<rparr>"
proof -
  let ?request = "\<lparr>path = ''/api/cafe'', content = ''''\<rparr> :: string request"
  let ?output = "PDict [(PStr ''name'', PStr [CHR ''c'', CHR ''a'', CHR ''f'', CHR 0xE9])]"
  let ?jsout = "''{\<newline>  \"name\": \"caf'' @ [CHR 0x5C] @ ''u00e9\"\<newline>}''"
  have r: "route (path ?request) = (''form'', ''cafe'')"
    by (simp add: route_def str_endswith_def)
  have h: "handlers demo_server ''cafe'' = Some cafe"
    by (simp add: demo_server_def)
  have e: "cafe \<lparr>credentials = None, database = None\<rparr> Map.empty =
             (Returned ?output, \<lparr>credentials = None, database = Some 2\<rparr>)"
    by (simp add: cafe_def)
  have t: "truthy ?output" by simp
  have n: "\<not> is_Response ?output" by simp
  have j: "json_dumps ?output = Some ?jsout"
    by code_simp
  have d: "str_nat (utf8_len ?jsout) = ''25''"
    by code_simp
  show ?thesis
    using serialize_json_content_length [OF r demo_parse_form h demo_get_session e t n j] j d
    by (simp add: BOXER_VERSION_def)
qed

text \<open>
  Claim C7. For every dispatched handler whose result is false as a condition (\<open>None\<close>,
  an empty dict, list or string, zero, \<open>False\<close>) and is not a pre-built response,
  \<open>handle_request\<close> returns status 404 with the body \<open>Content not found\<close>, which is not
  the body \<open>API Endpoint not found!\<close> of an unregistered endpoint.
\<close>

theorem empty_result_content_not_found:
  assumes "route (path request) = (body_type, handler)"
    and "parse_formdata env body_type request = Inr indata"
    and "handlers self handler = Some endpoint"
    and "get_session env request = Inr session"
    and "endpoint session indata = (Returned output, session1)"
    and "\<not> truthy output"
    and "\<not> is_Response output"
  shows "returned (handle_request self env request) =
           Inr \<lparr>headers = [(''Server'', ''ASF Infra Boxer Suite v/'' @ BOXER_VERSION),
                           (''content-type'', ''application/json'')],
                status = 404, text = ''Content not found''\<rparr>
         \<and> ''Content not found'' \<noteq> ''API Endpoint not found!''"
  using handle_request_dispatch [OF assms(1-4)] assms(5-7)
  by (cases "output") (simp_all add: serialize_def Let_def base_headers_def)

theorem empty_result_content_not_found_witness:
  "returned (handle_request demo_server demo_env \<lparr>path = ''/api/nothing'', content = ''''\<rparr>) =
     Inr \<lparr>headers = [(''Server'', ''ASF Infra Boxer Suite v/0.1.0''),
                     (''content-type'', ''application/json'')],
          status = 404, text = ''Content not found''\<rparr>"
proof -
  let ?request = "\<lparr>path = ''/api/nothing'', content = ''''\<rparr> :: string request"
  let ?session = "\<lparr>credentials = None, database = None\<rparr> :: nat session"
  have r: "route (path ?request) = (''form'', ''nothing'')"
    by (simp add: route_def str_endswith_def)
  have h: "handlers demo_server ''nothing'' = Some nothing"
    by (simp add: demo_server_def)
  have e: "nothing ?session Map.empty = (Returned (PDict []), ?session)"
    by (simp add: nothing_def)
  have t: "\<not> truthy (PDict [])" by simp
  have n: "\<not> is_Response (PDict [])" by simp
  show ?thesis
    using empty_result_content_not_found [OF r demo_parse_form h demo_get_session e t n]
    by (simp add: BOXER_VERSION_def)
qed

section \<open>The repository endpoint behind the server\<close>

lemma dumps_login_message:
  "json_dumps (PDict [(PStr ''okay'', PBool False),
                      (PStr ''message'',
                       PStr ''You need to be logged in to access this end point'')]) =
     Some ''{\<newline>  \"okay\": false,\<newline>  \"message\": \"You need to be logged in to access this end point\"\<newline>}''"
  by code_simp

lemma length_login_message:
  "str_nat (length ''{\<newline>  \"okay\": false,\<newline>  \"message\": \"You need to be logged in to access this end point\"\<newline>}'') = ''85''"
  by code_simp

text \<open>
  Claim C8. For every request dispatched to the repository endpoint with a session that
  carries no credentials, \<open>process\<close> returns the dict with \<open>okay\<close> false and the message
  \<open>You need to be logged in to access this end point\<close>, whatever the input fields are,
  and \<open>handle_request\<close> returns it encoded as JSON with status 200. The session exists
  only once the body is parsed and the endpoint found, so these are part of the setting.
\<close>

theorem repository_requires_login:
  assumes "route (path request) = (body_type, ''repository'')"
    and "parse_formdata env body_type request = Inr indata"
    and "handlers self ''repository'' = Some (register create)"
    and "get_session env request = Inr session"
    and "credentials session = None"
  shows "process create session indata =
           (Returned (PDict [(PStr ''okay'', PBool False),
                             (PStr ''message'',
                              PStr ''You need to be logged in to access this end point'')]),
            session)
         \<and> returned (handle_request self env request) =
             Inr \<lparr>headers = [(''Server'', ''ASF Infra Boxer Suite v/'' @ BOXER_VERSION),
                             (''content-type'', ''application/json''),
                             (''Content-Length'', ''85'')],
                  status = 200,
                  text = ''{\<newline>  \"okay\": false,\<newline>  \"message\": \"You need to be logged in to access this end point\"\<newline>}''\<rparr>"
proof -
  have a: "process create session indata =
           (Returned (PDict [(PStr ''okay'', PBool False),
                             (PStr ''message'',
                              PStr ''You need to be logged in to access this end point'')]),
            session)"
    using assms(5) by (simp add: process_def)
  have b: "handle_request self env request =
             serialize self env request session
               (PDict [(PStr ''okay'', PBool False),
                       (PStr ''message'',
                        PStr ''You need to be logged in to access this end point'')])"
    using handle_request_dispatch [OF assms(1-4)] by (simp add: a register_def Endpoint_def)
  show ?thesis
    unfolding b using a length_login_message
    by (simp add: serialize_def Let_def dumps_login_message base_headers_def)
qed

theorem repository_requires_login_witness:
  "returned (handle_request demo_server demo_env
               \<lparr>path = ''/api/repository'', content = ''''\<rparr>) =
     Inr \<lparr>headers = [(''Server'', ''ASF Infra Boxer Suite v/0.1.0''),
                     (''content-type'', ''application/json''),
                     (''Content-Length'', ''85'')],
          status = 200,
          text = ''{\<newline>  \"okay\": false,\<newline>  \"message\": \"You need to be logged in to access this end point\"\<newline>}''\<rparr>"
proof -
  let ?request = "\<lparr>path = ''/api/repository'', content = ''''\<rparr> :: string request"
  let ?session = "\<lparr>credentials = None, database = None\<rparr> :: nat session"
  have r: "route (path ?request) = (''form'', ''repository'')"
    by (simp add: route_def str_endswith_def)
  have h: "handlers demo_server ''repository'' = Some (register created)"
    by (simp add: demo_server_def)
  have c: "credentials ?session = None" by simp
  show ?thesis
    using repository_requires_login [OF r demo_parse_form h demo_get_session c]
    by (simp add: BOXER_VERSION_def)
qed

text \<open>
  Claim C10. For every session with credentials and every input whose \<open>action\<close> field is
  missing or is not the string \<open>create\<close>, \<open>process\<close> reaches its end and returns
  \<open>None\<close>, leaving the session as it was; behind the server, \<open>handle_request\<close> then
  returns status 404 with the body \<open>Content not found\<close>.
\<close>

theorem repository_other_action_content_not_found:
  assumes "route (path request) = (body_type, handler)"
    and "parse_formdata env body_type request = Inr indata"
    and "handlers self handler = Some (register create)"
    and "get_session env request = Inr session"
    and "credentials session \<noteq> None"
    and "indata ''action'' \<noteq> Some (PStr ''create'')"
  shows "process create session indata = (Returned PNone, session)
         \<and> returned (handle_request self env request) =
             Inr \<lparr>headers = [(''Server'', ''ASF Infra Boxer Suite v/'' @ BOXER_VERSION),
                             (''content-type'', ''application/json'')],
                  status = 404, text = ''Content not found''\<rparr>"
proof -
  have a: "process create session indata = (Returned PNone, session)"
    using assms(5,6) by (auto simp: process_def dict_get_def split: option.splits)
  show ?thesis
    using handle_request_dispatch [OF assms(1-4)] a
    by (simp add: serialize_def Let_def base_headers_def register_def Endpoint_def)
qed

theorem repository_other_action_content_not_found_witness:
  "returned (handle_request demo_server alice_env
               \<lparr>path = ''/api/repository'', content = ''''\<rparr>) =
     Inr \<lparr>headers = [(''Server'', ''ASF Infra Boxer Suite v/0.1.0''),
                     (''content-type'', ''application/json'')],
          status = 404, text = ''Content not found''\<rparr>"
proof -
  let ?request = "\<lparr>path = ''/api/repository'', content = ''''\<rparr> :: string request"
  let ?session = "\<lparr>credentials = Some alice, database = None\<rparr> :: nat session"
  have r: "route (path ?request) = (''form'', ''repository'')"
    by (simp add: route_def str_endswith_def)
  have p: "parse_formdata alice_env ''form'' ?request = Inr Map.empty"
    by (simp add: alice_env_def demo_env_def)
  have h: "handlers demo_server ''repository'' = Some (register created)"
    by (simp add: demo_server_def)
  have s: "get_session alice_env ?request = Inr ?session"
    by (simp add: alice_env_def)
  have c: "credentials ?session \<noteq> None" by simp
  have a: "Map.empty ''action'' \<noteq> Some (PStr ''create'')" by simp
  show ?thesis
    using repository_other_action_content_not_found [OF r p h s c a]
    by (simp add: BOXER_VERSION_def)
qed

end
